theory Spec2Isabelle
  imports Complex_Main "HOL-Library.Word"
begin

section \<open>Values\<close>

type_synonym byte = "8 word"

text \<open>
  A Go \<^verbatim>\<open>float64\<close> is written as the expression that computes it; no rounding is
  modelled.  \<open>F64_of_int n\<close> is the conversion \<^verbatim>\<open>float64(n)\<close> of an integer value,
  \<open>F64_of_ld x\<close> is the C narrowing of the \<^verbatim>\<open>long double\<close> of value \<open>x\<close> to a
  \<^verbatim>\<open>double\<close>, and \<open>F64_div a b\<close> is the IEEE-754 quotient \<^verbatim>\<open>a / b\<close>, which never
  traps in Go, whatever the divisor.
\<close>

datatype float64 =
    F64_of_int int
  | F64_of_ld rat
  | F64_div float64 float64

text \<open>
  The IEEE-754 sign bit: a conversion keeps the sign of its argument, and the sign of a
  quotient is the exclusive or of the signs of its operands.
\<close>

fun f64_signbit :: "float64 \<Rightarrow> bool" where
  "f64_signbit (F64_of_int n) = (n < 0)"
| "f64_signbit (F64_of_ld x) = (x < 0)"
| "f64_signbit (F64_div a b) = (f64_signbit a \<noteq> f64_signbit b)"

text \<open>
  A Go \<^verbatim>\<open>error\<close>: \<^verbatim>\<open>errors.New(s)\<close>, or the errno a system call failed with.  The nil
  error is \<open>None\<close> of \<open>error option\<close>.
\<close>

datatype error = New string | Errno nat

text \<open>A call either returns or panics (a Go run-time panic, or a fault in the C part).\<close>

datatype 'a outcome = Returns 'a | Panics

section \<open>Decimal rendering\<close>

text \<open>\<^verbatim>\<open>strconv.Itoa\<close> and the \<^verbatim>\<open>%d\<close> verb of \<^verbatim>\<open>fmt.Sprintf\<close>.\<close>

fun digits :: "nat \<Rightarrow> string" where
  "digits n =
     (if n < 10 then [''0123456789'' ! n]
      else digits (n div 10) @ [''0123456789'' ! (n mod 10)])"

definition Itoa :: "int \<Rightarrow> string" where
  "Itoa i = (if i < 0 then CHR ''-'' # digits (nat (- i)) else digits (nat i))"

section \<open>The kernel as the collectors see it\<close>

text \<open>
  One entry of the device array that \<^verbatim>\<open>devstat_getdevs\<close> fills, with the thirteen
  values \<^verbatim>\<open>devstat_compute_statistics\<close> computes for it (\<^verbatim>\<open>uint64_t\<close> counters, and
  \<^verbatim>\<open>long double\<close> seconds given by their value).
\<close>

record devstat =
  device_name :: string
  unit_number :: int
  TOTAL_BYTES_READ :: "64 word"
  TOTAL_BYTES_WRITE :: "64 word"
  TOTAL_BYTES_FREE :: "64 word"
  TOTAL_TRANSFERS_OTHER :: "64 word"
  TOTAL_TRANSFERS_READ :: "64 word"
  TOTAL_TRANSFERS_WRITE :: "64 word"
  TOTAL_TRANSFERS_FREE :: "64 word"
  TOTAL_DURATION_OTHER :: rat
  TOTAL_DURATION_READ :: rat
  TOTAL_DURATION_WRITE :: rat
  TOTAL_DURATION_FREE :: rat
  TOTAL_BUSY_TIME :: rat
  TOTAL_BLOCKS :: "64 word"

text \<open>
  The kernel state of one collection cycle: what \<^verbatim>\<open>unix.SysctlRaw\<close> returns for a
  name, whether \<^verbatim>\<open>calloc\<close> returns NULL, and the device array of \<^verbatim>\<open>devstat_getdevs\<close>
  (\<open>None\<close> when the call returns -1).
\<close>

record kernel =
  SysctlRaw :: "string \<Rightarrow> error + byte list"
  calloc_null :: bool
  devstat_getdevs :: "devstat list option"

text \<open>
  The width of Go's \<^verbatim>\<open>int\<close>.  Every FreeBSD target of Go is little-endian, so native
  byte order is little-endian.
\<close>

datatype arch = Arch32 | Arch64

fun sizeof_int :: "arch \<Rightarrow> nat" where
  "sizeof_int Arch32 = 4"
| "sizeof_int Arch64 = 8"

fun le_nat :: "byte list \<Rightarrow> nat" where
  "le_nat [] = 0"
| "le_nat (b # bs) = unat b + 256 * le_nat bs"

definition signed :: "nat \<Rightarrow> nat \<Rightarrow> int" where
  "signed bits v = (if v < 2 ^ (bits - 1) then int v else int v - 2 ^ bits)"

text \<open>The signed integer of \<open>n\<close> bytes stored at the start of \<open>m\<close>.\<close>

definition load_int :: "nat \<Rightarrow> byte list \<Rightarrow> int" where
  "load_int n m = signed (8 * n) (le_nat (take n m))"

text \<open>
  The \<open>n\<close> bytes of memory at \<^verbatim>\<open>&b[0]\<close>: the slice's own bytes, and past its end
  whatever the heap holds there (\<open>beyond\<close>, by offset from the end of the slice).
\<close>

definition memory_at :: "byte list \<Rightarrow> (nat \<Rightarrow> byte) \<Rightarrow> nat \<Rightarrow> byte list" where
  "memory_at b beyond n = take n b @ map beyond [0..<n - length b]"

section \<open>CPU times\<close>

record clockinfo =
  hz :: int
  tick :: int
  spare :: int
  stathz :: int
  profhz :: int

record cputime =
  user :: float64
  nice :: float64
  sys :: float64
  intr :: float64
  idle :: float64

text \<open>\<^verbatim>\<open>*(*clockinfo)(unsafe.Pointer(&clockb[0]))\<close>: five 32-bit fields, 20 bytes.\<close>

definition load_clockinfo :: "byte list \<Rightarrow> clockinfo" where
  "load_clockinfo m =
     \<lparr>hz = load_int 4 m, tick = load_int 4 (drop 4 m), spare = load_int 4 (drop 8 m),
      stathz = load_int 4 (drop 12 m), profhz = load_int 4 (drop 16 m)\<rparr>"

text \<open>The first loop of \<^verbatim>\<open>getCPUTimes\<close>: one converted value per whole integer of the blob.\<close>

function times_loop :: "arch \<Rightarrow> float64 \<Rightarrow> byte list \<Rightarrow> float64 list \<Rightarrow> float64 list" where
  "times_loop a cpufreq cpb tms =
     (if length cpb \<ge> sizeof_int a
      then times_loop a cpufreq (drop (sizeof_int a) cpb)
             (tms @ [F64_div (F64_of_int (load_int (sizeof_int a) cpb)) cpufreq])
      else tms)"
  by pat_completeness auto
termination
  by (relation "measure (\<lambda>(a, cpufreq, cpb, tms). length cpb)") (auto, case_tac a, auto)

text \<open>
  The second loop: \<^verbatim>\<open>&cpus[i/states]\<close> and \<^verbatim>\<open>times[i+1]\<close> ... \<^verbatim>\<open>times[i+4]\<close> are
  bounds-checked, and an index out of range panics.
\<close>

function cpus_loop :: "float64 list \<Rightarrow> nat \<Rightarrow> cputime list \<Rightarrow> cputime list outcome" where
  "cpus_loop tms i cpus =
     (if i < length tms then
        (if \<not> i div 5 < length cpus then Panics
         else if \<not> i + 4 < length tms then Panics
         else cpus_loop tms (i + 5)
                (cpus[i div 5 := \<lparr>user = tms ! i, nice = tms ! (i + 1), sys = tms ! (i + 2),
                                   intr = tms ! (i + 3), idle = tms ! (i + 4)\<rparr>]))
      else Returns cpus)"
  by pat_completeness auto
termination
  by (relation "measure (\<lambda>(tms, i, cpus). length tms - i)") auto

definition zero_cputime :: cputime where
  "zero_cputime = \<lparr>user = F64_of_int 0, nice = F64_of_int 0, sys = F64_of_int 0,
                    intr = F64_of_int 0, idle = F64_of_int 0\<rparr>"

definition getCPUTimes :: "arch \<Rightarrow> (nat \<Rightarrow> byte) \<Rightarrow> kernel \<Rightarrow> (error + cputime list) outcome" where
  "getCPUTimes a beyond k =
     (case SysctlRaw k ''kern.clockrate'' of
        Inl err \<Rightarrow> Returns (Inl err)
      | Inr clockb \<Rightarrow>
          if clockb = [] then Panics
          else
            let clock = load_clockinfo (memory_at clockb beyond 20) in
            (case SysctlRaw k ''kern.cp_times'' of
               Inl err \<Rightarrow> Returns (Inl err)
             | Inr cpb \<Rightarrow>
                 let cpufreq = (if stathz clock > 0 then F64_of_int (stathz clock)
                                else F64_of_int (hz clock));
                     tms = times_loop a cpufreq cpb [];
                     cpus = replicate (length tms div 5) zero_cputime
                 in (case cpus_loop tms 0 cpus of
                       Panics \<Rightarrow> Panics
                     | Returns cpus' \<Rightarrow> Returns (Inr cpus'))))"

section \<open>Metrics\<close>

record Desc =
  fqName :: string
  help_text :: string
  variableLabels :: "string list"

datatype ValueType = CounterValue | GaugeValue | UntypedValue

record typedDesc =
  desc :: Desc
  valueType :: ValueType

text \<open>One sample sent on the channel: a \<^verbatim>\<open>prometheus.Metric\<close>.\<close>

record Metric =
  metric_desc :: Desc
  metric_type :: ValueType
  metric_val :: float64
  labelValues :: "string list"

text \<open>\<^verbatim>\<open>prometheus.BuildFQName\<close>: the non-empty parts joined by an underscore.\<close>

definition BuildFQName :: "string \<Rightarrow> string \<Rightarrow> string \<Rightarrow> string" where
  "BuildFQName namespace subsystem name =
     (if name = [] then []
      else if namespace \<noteq> [] \<and> subsystem \<noteq> [] then namespace @ ''_'' @ subsystem @ ''_'' @ name
      else if namespace \<noteq> [] then namespace @ ''_'' @ name
      else if subsystem \<noteq> [] then subsystem @ ''_'' @ name
      else name)"

text \<open>
  Modelled from the spec: \<^verbatim>\<open>typedDesc.mustNewConstMetric\<close> is declared outside the
  source file.  Given a value and label values it produces one sample, and it fails (a
  panic) when the number of label values is not the descriptor's label arity.
\<close>

definition mustNewConstMetric :: "typedDesc \<Rightarrow> float64 \<Rightarrow> string list \<Rightarrow> Metric outcome" where
  "mustNewConstMetric d v labels =
     (if length labels = length (variableLabels (desc d))
      then Returns \<lparr>metric_desc = desc d, metric_type = valueType d, metric_val = v,
                     labelValues = labels\<rparr>
      else Panics)"

text \<open>
  What a collection cycle does to the outside: the samples sent on the channel \<open>ch\<close>, in
  order, and the device indices \<^verbatim>\<open>_get_stats\<close> was called with, in order.
\<close>

record trace =
  ch :: "Metric list"
  stats_queries :: "int list"

text \<open>
  A run of statements \<^verbatim>\<open>ch <- e\<close>: each sample is built, then sent; a panic while
  building one stops the run with the earlier ones sent.
\<close>

fun send_all :: "Metric outcome list \<Rightarrow> trace \<Rightarrow> unit outcome \<times> trace" where
  "send_all [] t = (Returns (), t)"
| "send_all (Panics # ms) t = (Panics, t)"
| "send_all (Returns m # ms) t = send_all ms (t\<lparr>ch := ch t @ [m]\<rparr>)"

section \<open>Device statistics\<close>

record Bytes =
  bytes_read :: "64 word"
  bytes_write :: "64 word"
  bytes_free :: "64 word"

record Transfers =
  transfers_other :: "64 word"
  transfers_read :: "64 word"
  transfers_write :: "64 word"
  transfers_free :: "64 word"

record Duration =
  duration_other :: float64
  duration_read :: float64
  duration_write :: float64
  duration_free :: float64

record Stats =
  device :: string
  unit :: int
  bytes :: Bytes
  transfers :: Transfers
  duration :: Duration
  busyTime :: int
  blocks :: "64 word"

text \<open>\<^verbatim>\<open>_get_ndevs\<close>: -2 when \<^verbatim>\<open>calloc\<close> fails, -1 when \<^verbatim>\<open>devstat_getdevs\<close> does.\<close>

definition get_ndevs :: "kernel \<Rightarrow> int" where
  "get_ndevs k =
     (if calloc_null k then - 2
      else case devstat_getdevs k of None \<Rightarrow> - 1 | Some devices \<Rightarrow> int (length devices))"

text \<open>The C conversion of a \<^verbatim>\<open>long double\<close> to \<^verbatim>\<open>long\<close> drops the fraction.\<close>

definition long_of_ld :: "rat \<Rightarrow> int" where
  "long_of_ld x = (if 0 \<le> x then \<lfloor>x\<rfloor> else \<lceil>x\<rceil>)"

text \<open>
  \<^verbatim>\<open>_get_stats\<close> checks neither \<^verbatim>\<open>calloc\<close> nor \<^verbatim>\<open>devstat_getdevs\<close> nor its index: a
  NULL device array or an index outside it is a fault.
\<close>

definition get_stats :: "kernel \<Rightarrow> int \<Rightarrow> Stats outcome" where
  "get_stats k i =
     (if calloc_null k then Panics
      else case devstat_getdevs k of
        None \<Rightarrow> Panics
      | Some devices \<Rightarrow>
          if 0 \<le> i \<and> i < int (length devices) then
            let d = devices ! nat i in
            Returns
              \<lparr>device = device_name d, unit = unit_number d,
               bytes = \<lparr>bytes_read = TOTAL_BYTES_READ d, bytes_write = TOTAL_BYTES_WRITE d,
                        bytes_free = TOTAL_BYTES_FREE d\<rparr>,
               transfers = \<lparr>transfers_other = TOTAL_TRANSFERS_OTHER d,
                            transfers_read = TOTAL_TRANSFERS_READ d,
                            transfers_write = TOTAL_TRANSFERS_WRITE d,
                            transfers_free = TOTAL_TRANSFERS_FREE d\<rparr>,
               duration = \<lparr>duration_other = F64_of_ld (TOTAL_DURATION_OTHER d),
                           duration_read = F64_of_ld (TOTAL_DURATION_READ d),
                           duration_write = F64_of_ld (TOTAL_DURATION_WRITE d),
                           duration_free = F64_of_ld (TOTAL_DURATION_FREE d)\<rparr>,
               busyTime = long_of_ld (TOTAL_BUSY_TIME d),
               blocks = TOTAL_BLOCKS d\<rparr>
          else Panics)"

text \<open>
  The descriptors of \<^verbatim>\<open>devstatCollector\<close>.  \<^verbatim>\<open>Namespace\<close> is a constant of the package
  declared outside the source file: a parameter here.  The field \<^verbatim>\<open>bytes_total\<close> is
  never set.
\<close>

record devstatCollector =
  bytesDesc :: typedDesc
  bytes_totalDesc :: "typedDesc option"
  transfersDesc :: typedDesc
  durationDesc :: typedDesc
  busyTimeDesc :: typedDesc
  blocksDesc :: typedDesc

definition devstatSubsystem :: string where
  "devstatSubsystem = ''devstat''"

definition NewDevstatCollector :: "string \<Rightarrow> devstatCollector" where
  "NewDevstatCollector Namespace =
     \<lparr>bytesDesc =
        \<lparr>desc = \<lparr>fqName = BuildFQName Namespace devstatSubsystem ''bytes_total'',
                  help_text = ''The total number of bytes in transactions.'',
                  variableLabels = [''device'', ''type'']\<rparr>,
         valueType = CounterValue\<rparr>,
      bytes_totalDesc = None,
      transfersDesc =
        \<lparr>desc = \<lparr>fqName = BuildFQName Namespace devstatSubsystem ''transfers_total'',
                  help_text = ''The total number of transactions.'',
                  variableLabels = [''device'', ''type'']\<rparr>,
         valueType = CounterValue\<rparr>,
      durationDesc =
        \<lparr>desc = \<lparr>fqName = BuildFQName Namespace devstatSubsystem ''duration_seconds_total'',
                  help_text = ''The total duration of transactions in seconds.'',
                  variableLabels = [''device'', ''type'']\<rparr>,
         valueType = CounterValue\<rparr>,
      busyTimeDesc =
        \<lparr>desc = \<lparr>fqName = BuildFQName Namespace devstatSubsystem ''busy_time_seconds_total'',
                  help_text = ''Total time the device had one or more transactions outstanding in seconds.'',
                  variableLabels = [''device'']\<rparr>,
         valueType = CounterValue\<rparr>,
      blocksDesc =
        \<lparr>desc = \<lparr>fqName = BuildFQName Namespace devstatSubsystem ''blocks_transferred_total'',
                  help_text = ''The total number of blocks transferred.'',
                  variableLabels = [''device'']\<rparr>,
         valueType = CounterValue\<rparr>\<rparr>"

text \<open>The body of the loop of \<^verbatim>\<open>devstatCollector.Update\<close> after the query: ten sends.\<close>

definition device_metrics :: "devstatCollector \<Rightarrow> Stats \<Rightarrow> Metric outcome list" where
  "device_metrics c stats =
     (let dev = device stats @ Itoa (unit stats) in
      [mustNewConstMetric (bytesDesc c) (F64_of_int (uint (bytes_read (bytes stats)))) [dev, ''read''],
       mustNewConstMetric (bytesDesc c) (F64_of_int (uint (bytes_write (bytes stats)))) [dev, ''write''],
       mustNewConstMetric (transfersDesc c) (F64_of_int (uint (transfers_other (transfers stats)))) [dev, ''other''],
       mustNewConstMetric (transfersDesc c) (F64_of_int (uint (transfers_read (transfers stats)))) [dev, ''read''],
       mustNewConstMetric (transfersDesc c) (F64_of_int (uint (transfers_write (transfers stats)))) [dev, ''write''],
       mustNewConstMetric (durationDesc c) (duration_other (duration stats)) [dev, ''other''],
       mustNewConstMetric (durationDesc c) (duration_read (duration stats)) [dev, ''read''],
       mustNewConstMetric (durationDesc c) (duration_write (duration stats)) [dev, ''write''],
       mustNewConstMetric (busyTimeDesc c) (F64_of_int (busyTime stats)) [dev],
       mustNewConstMetric (blocksDesc c) (F64_of_int (uint (blocks stats))) [dev]])"

function devstat_loop ::
  "devstatCollector \<Rightarrow> kernel \<Rightarrow> int \<Rightarrow> int \<Rightarrow> trace \<Rightarrow> unit outcome \<times> trace" where
  "devstat_loop c k i count t =
     (if i < count then
        (let t1 = t\<lparr>stats_queries := stats_queries t @ [i]\<rparr> in
         case get_stats k i of
           Panics \<Rightarrow> (Panics, t1)
         | Returns stats \<Rightarrow>
             (case send_all (device_metrics c stats) t1 of
                (Panics, t2) \<Rightarrow> (Panics, t2)
              | (Returns u, t2) \<Rightarrow> devstat_loop c k (i + 1) count t2))
      else (Returns (), t))"
  by pat_completeness auto
termination
  by (relation "measure (\<lambda>(c, k, i, count, t). nat (count - i))") auto

definition devstatCollector_Update ::
  "devstatCollector \<Rightarrow> kernel \<Rightarrow> trace \<Rightarrow> error option outcome \<times> trace" where
  "devstatCollector_Update c k t =
     (let count = get_ndevs k in
      if count = - 1 then (Returns (Some (New ''devstat_getdevs() failed'')), t)
      else if count = - 2 then (Returns (Some (New ''calloc() failed'')), t)
      else (case devstat_loop c k 0 count t of
              (Panics, t') \<Rightarrow> (Panics, t')
            | (Returns u, t') \<Rightarrow> (Returns None, t')))"

section \<open>The CPU collector\<close>

record statCollector =
  cpuDesc :: typedDesc

definition NewStatCollector :: "string \<Rightarrow> statCollector" where
  "NewStatCollector Namespace =
     \<lparr>cpuDesc =
        \<lparr>desc = \<lparr>fqName = BuildFQName Namespace ''cpu'' ''seconds_total'',
                  help_text = ''Seconds the CPU spent in each mode.'',
                  variableLabels = [''cpu'', ''mode'']\<rparr>,
         valueType = CounterValue\<rparr>\<rparr>"

text \<open>
  Modelled from the spec: the value expressions of the five sends of
  \<^verbatim>\<open>statCollector.Update\<close> name \<^verbatim>\<open>base_idx\<close> and \<^verbatim>\<open>C.CP_USER\<close> ... \<^verbatim>\<open>C.CP_IDLE\<close>, which
  the source file does not declare.  Each of the five samples of a CPU carries that
  CPU's time in the state its mode label names; the labels and their order are the
  source's.
\<close>

definition cpu_metrics :: "statCollector \<Rightarrow> nat \<Rightarrow> cputime \<Rightarrow> Metric outcome list" where
  "cpu_metrics c cpu t =
     [mustNewConstMetric (cpuDesc c) (user t) [Itoa (int cpu), ''user''],
      mustNewConstMetric (cpuDesc c) (nice t) [Itoa (int cpu), ''nice''],
      mustNewConstMetric (cpuDesc c) (sys t) [Itoa (int cpu), ''system''],
      mustNewConstMetric (cpuDesc c) (intr t) [Itoa (int cpu), ''interrupt''],
      mustNewConstMetric (cpuDesc c) (idle t) [Itoa (int cpu), ''idle'']]"

text \<open>\<^verbatim>\<open>for cpu, t := range cpuTimes\<close>, from index \<open>cpu\<close> on.\<close>

fun range_cpuTimes ::
  "statCollector \<Rightarrow> nat \<Rightarrow> cputime list \<Rightarrow> trace \<Rightarrow> unit outcome \<times> trace" where
  "range_cpuTimes c cpu [] tr = (Returns (), tr)"
| "range_cpuTimes c cpu (t # rest) tr =
     (case send_all (cpu_metrics c cpu t) tr of
        (Panics, tr') \<Rightarrow> (Panics, tr')
      | (Returns u, tr') \<Rightarrow> range_cpuTimes c (Suc cpu) rest tr')"

definition statCollector_Update ::
  "arch \<Rightarrow> (nat \<Rightarrow> byte) \<Rightarrow> statCollector \<Rightarrow> kernel \<Rightarrow> trace \<Rightarrow> error option outcome \<times> trace" where
  "statCollector_Update a beyond c k tr =
     (case getCPUTimes a beyond k of
        Panics \<Rightarrow> (Panics, tr)
      | Returns (Inl err) \<Rightarrow> (Returns (Some err), tr)
      | Returns (Inr cpuTimes) \<Rightarrow>
          (case range_cpuTimes c 0 cpuTimes tr of
             (Panics, tr') \<Rightarrow> (Panics, tr')
           | (Returns u, tr') \<Rightarrow> (Returns None, tr')))"

section \<open>Vocabulary of the properties\<close>

text \<open>The \<open>j\<close>-th whole native integer of the tick table \<open>cpb\<close>.\<close>

definition cp_tick :: "arch \<Rightarrow> byte list \<Rightarrow> nat \<Rightarrow> int" where
  "cp_tick a cpb j = load_int (sizeof_int a) (drop (j * sizeof_int a) cpb)"

text \<open>The record the second loop of \<^verbatim>\<open>getCPUTimes\<close> stores for CPU \<open>m\<close>.\<close>

definition cpu_at :: "float64 list \<Rightarrow> nat \<Rightarrow> cputime" where
  "cpu_at tms m = \<lparr>user = tms ! (5 * m), nice = tms ! (5 * m + 1), sys = tms ! (5 * m + 2),
                    intr = tms ! (5 * m + 3), idle = tms ! (5 * m + 4)\<rparr>"

text \<open>
  The sample of CPU \<open>m\<close>: the five ticks at positions \<open>5 * m\<close> ... \<open>5 * m + 4\<close>, each
  divided by the frequency \<open>f\<close>.
\<close>

definition cpu_sample :: "arch \<Rightarrow> byte list \<Rightarrow> float64 \<Rightarrow> nat \<Rightarrow> cputime" where
  "cpu_sample a cpb f m =
     \<lparr>user = F64_div (F64_of_int (cp_tick a cpb (5 * m))) f,
      nice = F64_div (F64_of_int (cp_tick a cpb (5 * m + 1))) f,
      sys = F64_div (F64_of_int (cp_tick a cpb (5 * m + 2))) f,
      intr = F64_div (F64_of_int (cp_tick a cpb (5 * m + 3))) f,
      idle = F64_div (F64_of_int (cp_tick a cpb (5 * m + 4))) f\<rparr>"

text \<open>The samples a run of sends puts on the channel: those built before the first panic.\<close>

definition sent :: "Metric outcome list \<Rightarrow> Metric list" where
  "sent ms = map (\<lambda>m. case m of Returns x \<Rightarrow> x) (takeWhile (\<lambda>m. m \<noteq> Panics) ms)"

definition empty_trace :: trace where
  "empty_trace = \<lparr>ch = [], stats_queries = []\<rparr>"


text \<open>
  The samples device \<open>j\<close> contributes in one turn of the loop of
  \<^verbatim>\<open>devstatCollector.Update\<close>.
\<close>

definition device_samples :: "devstatCollector \<Rightarrow> kernel \<Rightarrow> nat \<Rightarrow> Metric list" where
  "device_samples c k j =
     (case get_stats k (int j) of Returns stats \<Rightarrow> sent (device_metrics c stats) | Panics \<Rightarrow> [])"

text \<open>A sample seen as its metric name, its label values and its value.\<close>

definition sample_view :: "Metric \<Rightarrow> string \<times> string list \<times> float64" where
  "sample_view m = (fqName (metric_desc m), labelValues m, metric_val m)"

section \<open>Example inputs\<close>

text \<open>A kernel that answers the two names the CPU collector asks for; ENOENT otherwise.\<close>

definition sysctl_of :: "error + byte list \<Rightarrow> error + byte list \<Rightarrow> string \<Rightarrow> error + byte list" where
  "sysctl_of clockrate cp_times name =
     (if name = ''kern.clockrate'' then clockrate
      else if name = ''kern.cp_times'' then cp_times
      else Inl (Errno 2))"

definition cpu_kernel :: "error + byte list \<Rightarrow> error + byte list \<Rightarrow> kernel" where
  "cpu_kernel clockrate cp_times =
     \<lparr>SysctlRaw = sysctl_of clockrate cp_times, calloc_null = False, devstat_getdevs = Some []\<rparr>"

definition dev_kernel :: "bool \<Rightarrow> devstat list option \<Rightarrow> kernel" where
  "dev_kernel null devs =
     \<lparr>SysctlRaw = (\<lambda>name. Inl (Errno 2)), calloc_null = null, devstat_getdevs = devs\<rparr>"

text \<open>
  Clock records of the full 20 bytes: \<open>hz = 100\<close>, \<open>tick = 10000\<close>, \<open>stathz = 127\<close>,
  \<open>profhz = 8128\<close>; \<open>hz = 120\<close> with \<open>stathz = 0\<close>; and all fields zero.
\<close>

definition clockrate_stathz127 :: "byte list" where
  "clockrate_stathz127 = [100, 0, 0, 0,  16, 39, 0, 0,  0, 0, 0, 0,  127, 0, 0, 0,  192, 31, 0, 0]"

definition clockrate_hz120 :: "byte list" where
  "clockrate_hz120 = [120, 0, 0, 0,  141, 32, 0, 0,  0, 0, 0, 0,  0, 0, 0, 0,  0, 0, 0, 0]"

definition clockrate_zero :: "byte list" where
  "clockrate_zero = [0, 0, 0, 0,  0, 0, 0, 0,  0, 0, 0, 0,  0, 0, 0, 0,  0, 0, 0, 0]"

text \<open>Tick tables of one CPU with 64-bit integers: the ticks 1 to 5, and five times -1.\<close>

definition ticks_1_to_5 :: "byte list" where
  "ticks_1_to_5 = [1, 0, 0, 0, 0, 0, 0, 0,  2, 0, 0, 0, 0, 0, 0, 0,  3, 0, 0, 0, 0, 0, 0, 0,
                   4, 0, 0, 0, 0, 0, 0, 0,  5, 0, 0, 0, 0, 0, 0, 0]"

definition ticks_minus_1 :: "byte list" where
  "ticks_minus_1 =
     [255, 255, 255, 255, 255, 255, 255, 255,  255, 255, 255, 255, 255, 255, 255, 255,
      255, 255, 255, 255, 255, 255, 255, 255,  255, 255, 255, 255, 255, 255, 255, 255,
      255, 255, 255, 255, 255, 255, 255, 255]"

text \<open>A device with fixed counters, and an array of three of them.\<close>

definition example_device :: "string \<Rightarrow> int \<Rightarrow> devstat" where
  "example_device name u =
     \<lparr>device_name = name, unit_number = u,
      TOTAL_BYTES_READ = 4096, TOTAL_BYTES_WRITE = 8192, TOTAL_BYTES_FREE = 512,
      TOTAL_TRANSFERS_OTHER = 3, TOTAL_TRANSFERS_READ = 8, TOTAL_TRANSFERS_WRITE = 16,
      TOTAL_TRANSFERS_FREE = 1,
      TOTAL_DURATION_OTHER = 1 / 4, TOTAL_DURATION_READ = 3 / 2, TOTAL_DURATION_WRITE = 5 / 2,
      TOTAL_DURATION_FREE = 1 / 8,
      TOTAL_BUSY_TIME = 7 / 2, TOTAL_BLOCKS = 24\<rparr>"

definition three_devices :: "devstat list" where
  "three_devices = [example_device ''ada'' 0, example_device ''ada'' 1, example_device ''cd'' 0]"


section \<open>The loops of getCPUTimes\<close>

declare times_loop.simps [simp del] cpus_loop.simps [simp del] devstat_loop.simps [simp del]
  digits.simps [simp del]

lemma sizeof_int_pos: "0 < sizeof_int a"
  by (cases a) auto

lemma times_loop_eq:
  "times_loop a f cpb acc =
     acc @ map (\<lambda>j. F64_div (F64_of_int (cp_tick a cpb j)) f) [0..<length cpb div sizeof_int a]"
proof (induction a f cpb acc rule: times_loop.induct)
  case (1 a f cpb acc)
  let ?w = "sizeof_int a"
  have w: "0 < ?w" by (rule sizeof_int_pos)
  show ?case
  proof (cases "?w \<le> length cpb")
    case True
    then have d: "length cpb div ?w = Suc ((length cpb - ?w) div ?w)"
      using w by (simp add: le_div_geq)
    have t: "cp_tick a (drop ?w cpb) j = cp_tick a cpb (Suc j)" for j
      by (simp add: cp_tick_def add.commute)
    have "times_loop a f cpb acc =
        times_loop a f (drop ?w cpb) (acc @ [F64_div (F64_of_int (load_int ?w cpb)) f])"
      using True by (subst times_loop.simps) simp
    also have "\<dots> = (acc @ [F64_div (F64_of_int (load_int ?w cpb)) f]) @
        map (\<lambda>j. F64_div (F64_of_int (cp_tick a (drop ?w cpb) j)) f) [0..<(length cpb - ?w) div ?w]"
      using "1.IH" [OF True] by simp
    also have "\<dots> = acc @ map (\<lambda>j. F64_div (F64_of_int (cp_tick a cpb j)) f) [0..<length cpb div ?w]"
      unfolding d t by (simp add: map_upt_Suc cp_tick_def del: upt_Suc)
    finally show ?thesis .
  next
    case False
    then have "length cpb div ?w = 0" by simp
    then show ?thesis using False by (subst times_loop.simps) simp
  qed
qed

lemma cpus_loop_exact:
  "length tms = 5 * n \<Longrightarrow> length cpus = n \<Longrightarrow> j \<le> n \<Longrightarrow>
   cpus_loop tms (5 * j) cpus = Returns (take j cpus @ map (cpu_at tms) [j..<n])"
proof (induction "n - j" arbitrary: j cpus)
  case 0
  then have "j = n" by simp
  with 0 show ?case by (subst cpus_loop.simps) simp
next
  case (Suc d)
  then have lt: "j < n" by simp
  have "cpus_loop tms (5 * j) cpus = cpus_loop tms (5 * j + 5) (cpus[j := cpu_at tms j])"
    using lt Suc.prems by (subst cpus_loop.simps) (simp add: cpu_at_def)
  also have "\<dots> = cpus_loop tms (5 * Suc j) (cpus[j := cpu_at tms j])"
    by (simp add: add.commute)
  also have "\<dots> = Returns (take (Suc j) (cpus[j := cpu_at tms j]) @ map (cpu_at tms) [Suc j..<n])"
    using Suc.hyps(2) Suc.prems lt by (intro Suc.hyps(1)) auto
  also have "take (Suc j) (cpus[j := cpu_at tms j]) = take j cpus @ [cpu_at tms j]"
    using lt Suc.prems by (simp add: take_Suc_conv_app_nth)
  finally show ?case using lt by (simp add: upt_conv_Cons)
qed

lemma cpus_loop_panics:
  "length tms mod 5 \<noteq> 0 \<Longrightarrow> length cpus = length tms div 5 \<Longrightarrow> j \<le> length tms div 5 \<Longrightarrow>
   cpus_loop tms (5 * j) cpus = Panics"
proof (induction "length tms div 5 - j" arbitrary: j cpus)
  case 0
  then have j: "j = length tms div 5" by simp
  have "5 * j < length tms" using 0(2) j by presburger
  then show ?case using 0 j by (subst cpus_loop.simps) simp
next
  case (Suc d)
  then have lt: "j < length tms div 5" by simp
  then have b: "5 * j + 4 < length tms" by presburger
  have "cpus_loop tms (5 * j) cpus = cpus_loop tms (5 * j + 5) (cpus[j := cpu_at tms j])"
    using lt b Suc.prems by (subst cpus_loop.simps) (simp add: cpu_at_def)
  also have "\<dots> = cpus_loop tms (5 * Suc j) (cpus[j := cpu_at tms j])"
    by (simp add: add.commute)
  also have "\<dots> = Panics"
    using Suc.hyps(2) Suc.prems lt by (intro Suc.hyps(1)) auto
  finally show ?case .
qed

lemma cpu_at_map:
  assumes "5 * m + 4 < n"
  shows "cpu_at (map (\<lambda>j. F64_div (F64_of_int (cp_tick a cpb j)) f) [0..<n]) m = cpu_sample a cpb f m"
  using assms by (simp add: cpu_at_def cpu_sample_def)

text \<open>
  What \<^verbatim>\<open>getCPUTimes\<close> computes once both queries have returned and the clock record is
  not empty: with \<open>n\<close> whole integers in the tick table, \<open>n div 5\<close> samples when \<open>n\<close> is
  a multiple of 5, and an index panic otherwise.
\<close>

lemma getCPUTimes_decoded:
  assumes clk: "SysctlRaw k ''kern.clockrate'' = Inr clockb" "clockb \<noteq> []"
    and cp: "SysctlRaw k ''kern.cp_times'' = Inr cpb"
    and clock_def: "clock = load_clockinfo (memory_at clockb beyond 20)"
    and f_def: "f = F64_of_int (if 0 < stathz clock then stathz clock else hz clock)"
    and n_def: "n = length cpb div sizeof_int a"
  shows "getCPUTimes a beyond k =
           (if n mod 5 = 0 then Returns (Inr (map (cpu_sample a cpb f) [0..<n div 5])) else Panics)"
proof -
  let ?tms = "map (\<lambda>j. F64_div (F64_of_int (cp_tick a cpb j)) f) [0..<n]"
  let ?cpus = "replicate (n div 5) zero_cputime"
  have g: "getCPUTimes a beyond k =
      (case cpus_loop ?tms 0 ?cpus of Panics \<Rightarrow> Panics | Returns cpus' \<Rightarrow> Returns (Inr cpus'))"
    using clk cp
    by (simp add: getCPUTimes_def Let_def times_loop_eq clock_def f_def n_def if_distrib [of F64_of_int])
  show ?thesis
  proof (cases "n mod 5 = 0")
    case True
    then have len: "length ?tms = 5 * (n div 5)" by auto
    have "cpus_loop ?tms (5 * 0) ?cpus = Returns (take 0 ?cpus @ map (cpu_at ?tms) [0..<n div 5])"
      by (rule cpus_loop_exact [OF len]) simp_all
    moreover have "map (cpu_at ?tms) [0..<n div 5] = map (cpu_sample a cpb f) [0..<n div 5]"
    proof (rule map_cong [OF refl])
      fix m assume "m \<in> set [0..<n div 5]"
      then have "5 * m + 4 < n" using True by auto
      then show "cpu_at ?tms m = cpu_sample a cpb f m" by (rule cpu_at_map)
    qed
    ultimately show ?thesis using True g by simp
  next
    case False
    have "cpus_loop ?tms (5 * 0) ?cpus = Panics"
      by (rule cpus_loop_panics) (use False in simp_all)
    then show ?thesis using False g by simp
  qed
qed

section \<open>Sending\<close>

lemma send_all_eq:
  "send_all ms t = ((if Panics \<in> set ms then Panics else Returns ()), t\<lparr>ch := ch t @ sent ms\<rparr>)"
  by (induction ms t rule: send_all.induct) (auto simp: sent_def)

section \<open>The loop of devstatCollector.Update\<close>

lemma device_metrics_complete: "Panics \<notin> set (device_metrics (NewDevstatCollector ns) stats)"
  by (simp add: device_metrics_def NewDevstatCollector_def mustNewConstMetric_def Let_def)

lemma get_stats_Returns:
  assumes "\<not> calloc_null k" and "devstat_getdevs k = Some ds" and "j < length ds"
  shows "\<exists>stats. get_stats k (int j) = Returns stats"
  using assms by (simp add: get_stats_def Let_def)

lemma devstat_loop_run:
  assumes "\<not> calloc_null k" and "devstat_getdevs k = Some ds" and "c = NewDevstatCollector ns"
  shows "i \<le> length ds \<Longrightarrow>
    devstat_loop c k (int i) (int (length ds)) t =
      (Returns (), \<lparr>ch = ch t @ concat (map (device_samples c k) [i..<length ds]),
                    stats_queries = stats_queries t @ map int [i..<length ds]\<rparr>)"
proof (induction "length ds - i" arbitrary: i t)
  case 0
  then have "i = length ds" by simp
  then show ?case by (subst devstat_loop.simps) simp
next
  case (Suc d)
  then have lt: "i < length ds" by simp
  obtain stats where st: "get_stats k (int i) = Returns stats"
    using get_stats_Returns [OF assms(1,2) lt] by blast
  let ?t1 = "t\<lparr>stats_queries := stats_queries t @ [int i]\<rparr>"
  let ?t2 = "?t1\<lparr>ch := ch ?t1 @ sent (device_metrics c stats)\<rparr>"
  have "devstat_loop c k (int i) (int (length ds)) t =
          devstat_loop c k (int i + 1) (int (length ds)) ?t2"
    using lt st device_metrics_complete [of ns stats] assms(3)
    by (subst devstat_loop.simps) (simp add: send_all_eq Let_def)
  also have "int i + 1 = int (Suc i)" by simp
  also have "devstat_loop c k (int (Suc i)) (int (length ds)) ?t2 =
      (Returns (), \<lparr>ch = ch ?t2 @ concat (map (device_samples c k) [Suc i..<length ds]),
                    stats_queries = stats_queries ?t2 @ map int [Suc i..<length ds]\<rparr>)"
    using Suc.hyps(2) lt by (intro Suc.hyps(1)) auto
  finally show ?case
    using lt st by (simp add: upt_conv_Cons device_samples_def)
qed

lemma devstat_Update_run:
  assumes "\<not> calloc_null k" and "devstat_getdevs k = Some ds" and "c = NewDevstatCollector ns"
  shows "devstatCollector_Update c k t =
      (Returns None, \<lparr>ch = ch t @ concat (map (device_samples c k) [0..<length ds]),
                      stats_queries = stats_queries t @ map int [0..<length ds]\<rparr>)"
  using devstat_loop_run [OF assms, of 0 t] assms(1,2)
  by (simp add: devstatCollector_Update_def get_ndevs_def Let_def)

lemma device_samples_view:
  assumes "\<not> calloc_null k" and "devstat_getdevs k = Some ds" and "j < length ds"
    and "dev = device_name (ds ! j) @ Itoa (unit_number (ds ! j))"
  shows "map sample_view (device_samples (NewDevstatCollector ns) k j) =
     [(BuildFQName ns ''devstat'' ''bytes_total'', [dev, ''read''],
         F64_of_int (uint (TOTAL_BYTES_READ (ds ! j)))),
      (BuildFQName ns ''devstat'' ''bytes_total'', [dev, ''write''],
         F64_of_int (uint (TOTAL_BYTES_WRITE (ds ! j)))),
      (BuildFQName ns ''devstat'' ''transfers_total'', [dev, ''other''],
         F64_of_int (uint (TOTAL_TRANSFERS_OTHER (ds ! j)))),
      (BuildFQName ns ''devstat'' ''transfers_total'', [dev, ''read''],
         F64_of_int (uint (TOTAL_TRANSFERS_READ (ds ! j)))),
      (BuildFQName ns ''devstat'' ''transfers_total'', [dev, ''write''],
         F64_of_int (uint (TOTAL_TRANSFERS_WRITE (ds ! j)))),
      (BuildFQName ns ''devstat'' ''duration_seconds_total'', [dev, ''other''],
         F64_of_ld (TOTAL_DURATION_OTHER (ds ! j))),
      (BuildFQName ns ''devstat'' ''duration_seconds_total'', [dev, ''read''],
         F64_of_ld (TOTAL_DURATION_READ (ds ! j))),
      (BuildFQName ns ''devstat'' ''duration_seconds_total'', [dev, ''write''],
         F64_of_ld (TOTAL_DURATION_WRITE (ds ! j))),
      (BuildFQName ns ''devstat'' ''busy_time_seconds_total'', [dev],
         F64_of_int (long_of_ld (TOTAL_BUSY_TIME (ds ! j)))),
      (BuildFQName ns ''devstat'' ''blocks_transferred_total'', [dev],
         F64_of_int (uint (TOTAL_BLOCKS (ds ! j))))]"
  using assms
  by (simp add: device_samples_def get_stats_def Let_def device_metrics_def sent_def
        NewDevstatCollector_def mustNewConstMetric_def sample_view_def devstatSubsystem_def)

section \<open>What a cycle adds to the trace\<close>








lemma eval_upt: "[i..<numeral n] = (if i < numeral n then i # [Suc i..<numeral n] else [])"
  by (rule upt_rec)


lemmas eval_defs = cpu_kernel_def sysctl_of_def memory_at_def load_clockinfo_def load_int_def
  signed_def cp_tick_def cpu_sample_def clockrate_stathz127_def clockrate_hz120_def
  clockrate_zero_def ticks_1_to_5_def ticks_minus_1_def

lemmas dev_eval_defs = dev_kernel_def three_devices_def example_device_def device_samples_def
  get_stats_def device_metrics_def sent_def NewDevstatCollector_def mustNewConstMetric_def
  devstatSubsystem_def BuildFQName_def Itoa_def digits.simps long_of_ld_def sample_view_def
  empty_trace_def Let_def

lemma long_of_ld_example: "long_of_ld (7 / 2) = 3"
  by (simp add: long_of_ld_def floor_eq_iff)

section \<open>Failure of the device enumeration\<close>

text \<open>
  C6.  When \<^verbatim>\<open>_get_ndevs\<close> returns -1, \<^verbatim>\<open>devstatCollector.Update\<close> returns the error
  "devstat_getdevs() failed"; when it returns -2, the error "calloc() failed".  In both
  cases the trace is unchanged: no sample is sent and \<^verbatim>\<open>_get_stats\<close> is not called.
  The count is -2 exactly when \<^verbatim>\<open>calloc\<close> fails and -1 when \<^verbatim>\<open>devstat_getdevs\<close> does.
\<close>

theorem devstat_enumeration_failure:
  "(get_ndevs k = - 1 \<longrightarrow>
      devstatCollector_Update c k t = (Returns (Some (New ''devstat_getdevs() failed'')), t)) \<and>
   (get_ndevs k = - 2 \<longrightarrow>
      devstatCollector_Update c k t = (Returns (Some (New ''calloc() failed'')), t)) \<and>
   (calloc_null k \<longrightarrow> get_ndevs k = - 2) \<and>
   (\<not> calloc_null k \<and> devstat_getdevs k = None \<longrightarrow> get_ndevs k = - 1)"
  by (simp add: devstatCollector_Update_def get_ndevs_def)

theorem devstat_enumeration_failure_witness:
  "devstatCollector_Update (NewDevstatCollector ''node'') (dev_kernel False None) empty_trace
     = (Returns (Some (New ''devstat_getdevs() failed'')), empty_trace) \<and>
   devstatCollector_Update (NewDevstatCollector ''node'') (dev_kernel True None) empty_trace
     = (Returns (Some (New ''calloc() failed'')), empty_trace)"
  using devstat_enumeration_failure [of "dev_kernel False None" "NewDevstatCollector ''node''" empty_trace]
    devstat_enumeration_failure [of "dev_kernel True None" "NewDevstatCollector ''node''" empty_trace]
  by (simp add: dev_kernel_def)

section \<open>Failure of the clock-rate query\<close>




section \<open>A tick table shorter than one integer\<close>

text \<open>
  C10, as amended.  When both queries return without error, the clock record is not
  empty and the tick table holds fewer bytes than one native integer (the empty table
  included), \<^verbatim>\<open>getCPUTimes\<close> returns the empty list and no error, and
  \<^verbatim>\<open>statCollector.Update\<close> returns nil with no sample sent.
\<close>

theorem short_cp_times_empty:
  assumes "SysctlRaw k ''kern.clockrate'' = Inr clockb" and "clockb \<noteq> []"
    and "SysctlRaw k ''kern.cp_times'' = Inr cpb" and "length cpb < sizeof_int a"
  shows "getCPUTimes a beyond k = Returns (Inr []) \<and>
         statCollector_Update a beyond c k tr = (Returns None, tr)"
proof -
  have "length cpb div sizeof_int a = 0" using assms(4) by simp
  then have "getCPUTimes a beyond k = Returns (Inr [])"
    using getCPUTimes_decoded [where beyond = beyond and a = a, OF assms(1-3) refl refl refl] by simp
  then show ?thesis by (simp add: statCollector_Update_def)
qed

theorem short_cp_times_empty_witness:
  "length [1, 2, 3 :: byte] < sizeof_int Arch64 \<and>
   getCPUTimes Arch64 (\<lambda>i. 0) (cpu_kernel (Inr clockrate_stathz127) (Inr [1, 2, 3])) = Returns (Inr []) \<and>
   statCollector_Update Arch64 (\<lambda>i. 0) (NewStatCollector ''node'')
     (cpu_kernel (Inr clockrate_stathz127) (Inr [1, 2, 3])) empty_trace = (Returns None, empty_trace)"
  using short_cp_times_empty [of "cpu_kernel (Inr clockrate_stathz127) (Inr [1, 2, 3])"
      clockrate_stathz127 "[1, 2, 3]" Arch64 "\<lambda>i. 0" "NewStatCollector ''node''" empty_trace]
  by (simp add: cpu_kernel_def sysctl_of_def clockrate_stathz127_def)

text \<open>
  C10 as stated fails: both queries return without error, with an empty clock record
  and an empty tick table, and \<^verbatim>\<open>&clockb[0]\<close> panics.
\<close>

theorem empty_clockrate_counterexample:
  "SysctlRaw (cpu_kernel (Inr []) (Inr [])) ''kern.clockrate'' = Inr [] \<and>
   SysctlRaw (cpu_kernel (Inr []) (Inr [])) ''kern.cp_times'' = Inr [] \<and>
   getCPUTimes Arch64 (\<lambda>i. 0) (cpu_kernel (Inr []) (Inr [])) = Panics \<and>
   statCollector_Update Arch64 (\<lambda>i. 0) (NewStatCollector ''node'') (cpu_kernel (Inr []) (Inr []))
     empty_trace = (Panics, empty_trace)"
  by (simp add: getCPUTimes_def statCollector_Update_def cpu_kernel_def sysctl_of_def)

section \<open>The length of the tick table\<close>

text \<open>
  C1, as amended.  When both queries return and the clock record is not empty: if the
  number of whole native integers of the tick table (its byte length \<open>div\<close> the native
  width) is not a multiple of 5, \<^verbatim>\<open>getCPUTimes\<close> panics on an index out of range, and
  \<^verbatim>\<open>statCollector.Update\<close> with it, no sample sent; if it is a multiple of 5, the table
  decodes to that number \<open>div 5\<close> of samples, whatever its byte length: trailing bytes
  that do not fill an integer are dropped, and nothing is padded.
\<close>

theorem cp_times_whole_integers:
  assumes "SysctlRaw k ''kern.clockrate'' = Inr clockb" and "clockb \<noteq> []"
    and "SysctlRaw k ''kern.cp_times'' = Inr cpb"
  shows "((length cpb div sizeof_int a) mod 5 \<noteq> 0 \<longrightarrow>
            getCPUTimes a beyond k = Panics \<and>
            statCollector_Update a beyond c k tr = (Panics, tr)) \<and>
         ((length cpb div sizeof_int a) mod 5 = 0 \<longrightarrow>
            (\<exists>cpus. getCPUTimes a beyond k = Returns (Inr cpus) \<and>
                    length cpus = length cpb div sizeof_int a div 5))"
  using getCPUTimes_decoded [where beyond = beyond and a = a, OF assms refl refl refl]
  by (simp add: statCollector_Update_def)

theorem cp_times_whole_integers_witness:
  "(length [1, 2, 3, 4, 5, 6, 7, 8, 9 :: byte] div sizeof_int Arch64) mod 5 \<noteq> 0 \<and>
   getCPUTimes Arch64 (\<lambda>i. 0)
     (cpu_kernel (Inr clockrate_stathz127) (Inr [1, 2, 3, 4, 5, 6, 7, 8, 9])) = Panics \<and>
   statCollector_Update Arch64 (\<lambda>i. 0) (NewStatCollector ''node'')
     (cpu_kernel (Inr clockrate_stathz127) (Inr [1, 2, 3, 4, 5, 6, 7, 8, 9])) empty_trace
     = (Panics, empty_trace)"
  using cp_times_whole_integers [of "cpu_kernel (Inr clockrate_stathz127) (Inr [1, 2, 3, 4, 5, 6, 7, 8, 9])"
      clockrate_stathz127 "[1, 2, 3, 4, 5, 6, 7, 8, 9]" Arch64 "\<lambda>i. 0" "NewStatCollector ''node''"
      empty_trace]
  by (simp add: cpu_kernel_def sysctl_of_def clockrate_stathz127_def)

text \<open>
  C1 as stated fails: a tick table of 41 bytes, not a multiple of 5 times 8, decodes
  without failure to one sample; its last byte is dropped.
\<close>

theorem trailing_bytes_counterexample:
  "length (ticks_1_to_5 @ [7]) = 41 \<and> \<not> (5 * sizeof_int Arch64) dvd (41 :: nat) \<and>
   getCPUTimes Arch64 (\<lambda>i. 0) (cpu_kernel (Inr clockrate_stathz127) (Inr (ticks_1_to_5 @ [7]))) =
     Returns (Inr [\<lparr>user = F64_div (F64_of_int 1) (F64_of_int 127),
                    nice = F64_div (F64_of_int 2) (F64_of_int 127),
                    sys = F64_div (F64_of_int 3) (F64_of_int 127),
                    intr = F64_div (F64_of_int 4) (F64_of_int 127),
                    idle = F64_div (F64_of_int 5) (F64_of_int 127)\<rparr>])"
  using getCPUTimes_decoded [of "cpu_kernel (Inr clockrate_stathz127) (Inr (ticks_1_to_5 @ [7]))"
       clockrate_stathz127 "ticks_1_to_5 @ [7]" _ "\<lambda>i. 0" _ _ Arch64, OF _ _ _ refl refl refl]
  by (simp add: eval_defs eval_upt)

section \<open>A frequency that is not positive\<close>

text \<open>
  C2, as amended.  When the statistics-clock frequency and the base frequency are both
  non-positive, no error is reported for it: the conversion frequency is the base
  frequency \<open>hz\<close>, and every tick of a well-formed table is divided by \<^verbatim>\<open>float64(hz)\<close>
  in floating point, which does not trap.
\<close>

theorem nonpositive_frequency_divides:
  assumes "SysctlRaw k ''kern.clockrate'' = Inr clockb" and "clockb \<noteq> []"
    and "SysctlRaw k ''kern.cp_times'' = Inr cpb"
    and "clock = load_clockinfo (memory_at clockb beyond 20)"
    and "stathz clock \<le> 0" and "hz clock \<le> 0"
    and "(length cpb div sizeof_int a) mod 5 = 0"
  shows "getCPUTimes a beyond k =
           Returns (Inr (map (cpu_sample a cpb (F64_of_int (hz clock)))
                          [0..<length cpb div sizeof_int a div 5]))"
  using getCPUTimes_decoded [where beyond = beyond and a = a, OF assms(1-4) refl refl] assms(5-7)
  by simp

theorem nonpositive_frequency_divides_witness:
  "stathz (load_clockinfo (memory_at clockrate_zero (\<lambda>i. 0) 20)) \<le> 0 \<and>
   hz (load_clockinfo (memory_at clockrate_zero (\<lambda>i. 0) 20)) \<le> 0 \<and>
   getCPUTimes Arch64 (\<lambda>i. 0) (cpu_kernel (Inr clockrate_zero) (Inr ticks_1_to_5)) =
     Returns (Inr (map (cpu_sample Arch64 ticks_1_to_5 (F64_of_int 0)) [0..<1]))"
  using nonpositive_frequency_divides [of "cpu_kernel (Inr clockrate_zero) (Inr ticks_1_to_5)"
      clockrate_zero ticks_1_to_5 _ "\<lambda>i. 0" Arch64, OF _ _ _ refl]
  by (simp add: cpu_kernel_def sysctl_of_def memory_at_def load_clockinfo_def load_int_def
        signed_def clockrate_zero_def ticks_1_to_5_def)

text \<open>
  C2 as stated fails: with both frequencies 0 the five ticks 1 to 5 are each divided
  by \<^verbatim>\<open>float64(0)\<close>, and the samples are returned with no error.
\<close>

theorem zero_frequency_counterexample:
  "stathz (load_clockinfo (memory_at clockrate_zero (\<lambda>i. 0) 20)) = 0 \<and>
   hz (load_clockinfo (memory_at clockrate_zero (\<lambda>i. 0) 20)) = 0 \<and>
   getCPUTimes Arch64 (\<lambda>i. 0) (cpu_kernel (Inr clockrate_zero) (Inr ticks_1_to_5)) =
     Returns (Inr [\<lparr>user = F64_div (F64_of_int 1) (F64_of_int 0),
                    nice = F64_div (F64_of_int 2) (F64_of_int 0),
                    sys = F64_div (F64_of_int 3) (F64_of_int 0),
                    intr = F64_div (F64_of_int 4) (F64_of_int 0),
                    idle = F64_div (F64_of_int 5) (F64_of_int 0)\<rparr>])"
  using getCPUTimes_decoded [of "cpu_kernel (Inr clockrate_zero) (Inr ticks_1_to_5)"
       clockrate_zero ticks_1_to_5 _ "\<lambda>i. 0" _ _ Arch64, OF _ _ _ refl refl refl]
  by (simp add: eval_defs eval_upt)

section \<open>The conversion frequency\<close>

text \<open>
  C5.  The frequency every tick is divided by is the statistics-clock frequency
  \<open>stathz\<close> when it is greater than zero, and the base frequency \<open>hz\<close> otherwise: the
  samples \<^verbatim>\<open>getCPUTimes\<close> returns hold, for each tick \<open>t\<close>, the floating-point quotient of
  \<^verbatim>\<open>float64(t)\<close> by that frequency.  In particular, with \<open>stathz = 0\<close> and \<open>hz = 120\<close>
  every tick is divided by \<^verbatim>\<open>float64(120)\<close>.
\<close>

theorem conversion_frequency:
  assumes "SysctlRaw k ''kern.clockrate'' = Inr clockb" and "clockb \<noteq> []"
    and "SysctlRaw k ''kern.cp_times'' = Inr cpb"
    and "clock = load_clockinfo (memory_at clockb beyond 20)"
    and "n = length cpb div sizeof_int a"
  shows "getCPUTimes a beyond k =
           (if n mod 5 = 0
            then Returns (Inr (map (cpu_sample a cpb
                    (F64_of_int (if 0 < stathz clock then stathz clock else hz clock)))
                    [0..<n div 5]))
            else Panics) \<and>
         (stathz clock = 0 \<and> hz clock = 120 \<and> n mod 5 = 0 \<longrightarrow>
            getCPUTimes a beyond k =
              Returns (Inr (map (cpu_sample a cpb (F64_of_int 120)) [0..<n div 5])))"
  using getCPUTimes_decoded [where beyond = beyond and a = a, OF assms(1-4) refl assms(5)]
  by simp

theorem conversion_frequency_witness:
  "stathz (load_clockinfo (memory_at clockrate_hz120 (\<lambda>i. 0) 20)) = 0 \<and>
   hz (load_clockinfo (memory_at clockrate_hz120 (\<lambda>i. 0) 20)) = 120 \<and>
   getCPUTimes Arch64 (\<lambda>i. 0) (cpu_kernel (Inr clockrate_hz120) (Inr ticks_1_to_5)) =
     Returns (Inr [\<lparr>user = F64_div (F64_of_int 1) (F64_of_int 120),
                    nice = F64_div (F64_of_int 2) (F64_of_int 120),
                    sys = F64_div (F64_of_int 3) (F64_of_int 120),
                    intr = F64_div (F64_of_int 4) (F64_of_int 120),
                    idle = F64_div (F64_of_int 5) (F64_of_int 120)\<rparr>])"
  using conversion_frequency [of "cpu_kernel (Inr clockrate_hz120) (Inr ticks_1_to_5)"
      clockrate_hz120 ticks_1_to_5 _ "\<lambda>i. 0" _ Arch64, OF _ _ _ refl refl]
  by (simp add: eval_defs eval_upt)

section \<open>One sample per CPU\<close>

text \<open>
  C4, as amended.  For a tick table of exactly \<open>5 * cpuCount\<close> native integers, with both
  queries returning, the clock record not empty and the conversion frequency positive,
  \<^verbatim>\<open>getCPUTimes\<close> returns exactly \<open>cpuCount\<close> samples; sample \<open>i\<close> takes its values from
  the five positions starting at \<open>5 * i\<close>, in the order user, nice, system, interrupt,
  idle, each the tick at its position divided by the frequency; and a value is
  non-negative when its tick, a signed native integer, is non-negative.
\<close>

theorem cp_times_partition:
  assumes "SysctlRaw k ''kern.clockrate'' = Inr clockb" and "clockb \<noteq> []"
    and "SysctlRaw k ''kern.cp_times'' = Inr cpb"
    and "length cpb = 5 * cpuCount * sizeof_int a"
    and "clock = load_clockinfo (memory_at clockb beyond 20)"
    and "freq = (if 0 < stathz clock then stathz clock else hz clock)"
    and "0 < freq"
  shows "\<exists>cpus. getCPUTimes a beyond k = Returns (Inr cpus) \<and> length cpus = cpuCount \<and>
     (\<forall>i<cpuCount.
        cpus ! i =
          \<lparr>user = F64_div (F64_of_int (cp_tick a cpb (5 * i))) (F64_of_int freq),
           nice = F64_div (F64_of_int (cp_tick a cpb (5 * i + 1))) (F64_of_int freq),
           sys = F64_div (F64_of_int (cp_tick a cpb (5 * i + 2))) (F64_of_int freq),
           intr = F64_div (F64_of_int (cp_tick a cpb (5 * i + 3))) (F64_of_int freq),
           idle = F64_div (F64_of_int (cp_tick a cpb (5 * i + 4))) (F64_of_int freq)\<rparr> \<and>
        (0 \<le> cp_tick a cpb (5 * i) \<longrightarrow> \<not> f64_signbit (user (cpus ! i))) \<and>
        (0 \<le> cp_tick a cpb (5 * i + 1) \<longrightarrow> \<not> f64_signbit (nice (cpus ! i))) \<and>
        (0 \<le> cp_tick a cpb (5 * i + 2) \<longrightarrow> \<not> f64_signbit (sys (cpus ! i))) \<and>
        (0 \<le> cp_tick a cpb (5 * i + 3) \<longrightarrow> \<not> f64_signbit (intr (cpus ! i))) \<and>
        (0 \<le> cp_tick a cpb (5 * i + 4) \<longrightarrow> \<not> f64_signbit (idle (cpus ! i))))"
proof -
  have n: "length cpb div sizeof_int a = 5 * cpuCount"
    using assms(4) sizeof_int_pos [of a] by simp
  have g: "getCPUTimes a beyond k =
      Returns (Inr (map (cpu_sample a cpb (F64_of_int freq)) [0..<cpuCount]))"
    using getCPUTimes_decoded [where beyond = beyond and a = a, OF assms(1-3) assms(5) refl refl]
    by (simp add: n assms(6))
  show ?thesis
    unfolding g using assms(7) by (simp add: cpu_sample_def)
qed

theorem cp_times_partition_witness:
  "length ticks_1_to_5 = 5 * 1 * sizeof_int Arch64 \<and>
   getCPUTimes Arch64 (\<lambda>i. 0) (cpu_kernel (Inr clockrate_stathz127) (Inr ticks_1_to_5)) =
     Returns (Inr [\<lparr>user = F64_div (F64_of_int 1) (F64_of_int 127),
                    nice = F64_div (F64_of_int 2) (F64_of_int 127),
                    sys = F64_div (F64_of_int 3) (F64_of_int 127),
                    intr = F64_div (F64_of_int 4) (F64_of_int 127),
                    idle = F64_div (F64_of_int 5) (F64_of_int 127)\<rparr>]) \<and>
   \<not> f64_signbit (F64_div (F64_of_int 1) (F64_of_int 127))"
proof -
  let ?s = "\<lparr>user = F64_div (F64_of_int 1) (F64_of_int 127),
             nice = F64_div (F64_of_int 2) (F64_of_int 127),
             sys = F64_div (F64_of_int 3) (F64_of_int 127),
             intr = F64_div (F64_of_int 4) (F64_of_int 127),
             idle = F64_div (F64_of_int 5) (F64_of_int 127)\<rparr>"
  obtain cpus where
    g: "getCPUTimes Arch64 (\<lambda>i. 0) (cpu_kernel (Inr clockrate_stathz127) (Inr ticks_1_to_5))
          = Returns (Inr cpus)"
    and l: "length cpus = 1" and c: "cpus ! 0 = ?s"
    using cp_times_partition [of "cpu_kernel (Inr clockrate_stathz127) (Inr ticks_1_to_5)"
      clockrate_stathz127 ticks_1_to_5 1 Arch64 _ "\<lambda>i. 0" _, OF _ _ _ _ refl refl]
    by (auto simp add: eval_defs eval_upt)
  from l c have "cpus = [?s]" by (cases cpus) auto
  with g show ?thesis by (simp add: ticks_1_to_5_def)
qed

text \<open>
  C4 as stated fails: a tick table of 40 bytes \<open>0xFF\<close> holds five ticks -1, and with the
  frequency 127 every value of the sample is \<^verbatim>\<open>float64(-1) / float64(127)\<close>, a negative
  number.
\<close>

theorem negative_tick_counterexample:
  "length ticks_minus_1 = 5 * 1 * sizeof_int Arch64 \<and>
   0 < stathz (load_clockinfo (memory_at clockrate_stathz127 (\<lambda>i. 0) 20)) \<and>
   getCPUTimes Arch64 (\<lambda>i. 0) (cpu_kernel (Inr clockrate_stathz127) (Inr ticks_minus_1)) =
     Returns (Inr [\<lparr>user = F64_div (F64_of_int (- 1)) (F64_of_int 127),
                    nice = F64_div (F64_of_int (- 1)) (F64_of_int 127),
                    sys = F64_div (F64_of_int (- 1)) (F64_of_int 127),
                    intr = F64_div (F64_of_int (- 1)) (F64_of_int 127),
                    idle = F64_div (F64_of_int (- 1)) (F64_of_int 127)\<rparr>]) \<and>
   f64_signbit (F64_div (F64_of_int (- 1)) (F64_of_int 127))"
  using getCPUTimes_decoded [of "cpu_kernel (Inr clockrate_stathz127) (Inr ticks_minus_1)"
       clockrate_stathz127 ticks_minus_1 _ "\<lambda>i. 0" _ _ Arch64, OF _ _ _ refl refl refl]
  by (simp add: eval_defs eval_upt)

section \<open>Three devices\<close>

text \<open>
  C3, as amended.  When \<^verbatim>\<open>_get_ndevs\<close> returns 3, \<^verbatim>\<open>devstatCollector.Update\<close> calls
  \<^verbatim>\<open>_get_stats\<close> exactly three times, with the indices 0, 1 and 2, and sends exactly
  10 samples per device, 30 in total: for each device, in this order, bytes read and
  write, transfers other, read and write, duration other, read and write, busy time and
  blocks, the first eight labelled with the device and the type, the last two with the
  device.
\<close>

theorem three_devices_thirty_samples:
  assumes "get_ndevs k = 3" and "devstat_getdevs k = Some ds" and "c = NewDevstatCollector ns"
  shows "devstatCollector_Update c k t =
      (Returns None,
       \<lparr>ch = ch t @ device_samples c k 0 @ device_samples c k 1 @ device_samples c k 2,
        stats_queries = stats_queries t @ [0, 1, 2]\<rparr>) \<and>
     length (device_samples c k 0 @ device_samples c k 1 @ device_samples c k 2) = 30 \<and>
     (\<forall>j<3. length (device_samples c k j) = 10 \<and>
        map (\<lambda>m. (fqName (metric_desc m), labelValues m)) (device_samples c k j) =
          [(BuildFQName ns ''devstat'' ''bytes_total'',
              [device_name (ds ! j) @ Itoa (unit_number (ds ! j)), ''read'']),
           (BuildFQName ns ''devstat'' ''bytes_total'',
              [device_name (ds ! j) @ Itoa (unit_number (ds ! j)), ''write'']),
           (BuildFQName ns ''devstat'' ''transfers_total'',
              [device_name (ds ! j) @ Itoa (unit_number (ds ! j)), ''other'']),
           (BuildFQName ns ''devstat'' ''transfers_total'',
              [device_name (ds ! j) @ Itoa (unit_number (ds ! j)), ''read'']),
           (BuildFQName ns ''devstat'' ''transfers_total'',
              [device_name (ds ! j) @ Itoa (unit_number (ds ! j)), ''write'']),
           (BuildFQName ns ''devstat'' ''duration_seconds_total'',
              [device_name (ds ! j) @ Itoa (unit_number (ds ! j)), ''other'']),
           (BuildFQName ns ''devstat'' ''duration_seconds_total'',
              [device_name (ds ! j) @ Itoa (unit_number (ds ! j)), ''read'']),
           (BuildFQName ns ''devstat'' ''duration_seconds_total'',
              [device_name (ds ! j) @ Itoa (unit_number (ds ! j)), ''write'']),
           (BuildFQName ns ''devstat'' ''busy_time_seconds_total'',
              [device_name (ds ! j) @ Itoa (unit_number (ds ! j))]),
           (BuildFQName ns ''devstat'' ''blocks_transferred_total'',
              [device_name (ds ! j) @ Itoa (unit_number (ds ! j))])])"
proof -
  have nn: "\<not> calloc_null k" and len: "length ds = 3"
    using assms(1,2) by (auto simp: get_ndevs_def split: if_splits)
  have v: "map sample_view (device_samples c k j) =
     [(BuildFQName ns ''devstat'' ''bytes_total'',
         [device_name (ds ! j) @ Itoa (unit_number (ds ! j)), ''read''],
         F64_of_int (uint (TOTAL_BYTES_READ (ds ! j)))),
      (BuildFQName ns ''devstat'' ''bytes_total'',
         [device_name (ds ! j) @ Itoa (unit_number (ds ! j)), ''write''],
         F64_of_int (uint (TOTAL_BYTES_WRITE (ds ! j)))),
      (BuildFQName ns ''devstat'' ''transfers_total'',
         [device_name (ds ! j) @ Itoa (unit_number (ds ! j)), ''other''],
         F64_of_int (uint (TOTAL_TRANSFERS_OTHER (ds ! j)))),
      (BuildFQName ns ''devstat'' ''transfers_total'',
         [device_name (ds ! j) @ Itoa (unit_number (ds ! j)), ''read''],
         F64_of_int (uint (TOTAL_TRANSFERS_READ (ds ! j)))),
      (BuildFQName ns ''devstat'' ''transfers_total'',
         [device_name (ds ! j) @ Itoa (unit_number (ds ! j)), ''write''],
         F64_of_int (uint (TOTAL_TRANSFERS_WRITE (ds ! j)))),
      (BuildFQName ns ''devstat'' ''duration_seconds_total'',
         [device_name (ds ! j) @ Itoa (unit_number (ds ! j)), ''other''],
         F64_of_ld (TOTAL_DURATION_OTHER (ds ! j))),
      (BuildFQName ns ''devstat'' ''duration_seconds_total'',
         [device_name (ds ! j) @ Itoa (unit_number (ds ! j)), ''read''],
         F64_of_ld (TOTAL_DURATION_READ (ds ! j))),
      (BuildFQName ns ''devstat'' ''duration_seconds_total'',
         [device_name (ds ! j) @ Itoa (unit_number (ds ! j)), ''write''],
         F64_of_ld (TOTAL_DURATION_WRITE (ds ! j))),
      (BuildFQName ns ''devstat'' ''busy_time_seconds_total'',
         [device_name (ds ! j) @ Itoa (unit_number (ds ! j))],
         F64_of_int (long_of_ld (TOTAL_BUSY_TIME (ds ! j)))),
      (BuildFQName ns ''devstat'' ''blocks_transferred_total'',
         [device_name (ds ! j) @ Itoa (unit_number (ds ! j))],
         F64_of_int (uint (TOTAL_BLOCKS (ds ! j))))]" if "j < 3" for j
    unfolding assms(3) using that len
    by (intro device_samples_view [OF nn assms(2) _ refl]) simp
  have l: "length (device_samples c k j) = 10" if "j < 3" for j
    using arg_cong [OF v [OF that], of length] by simp
  have kinds: "map (\<lambda>m. (fqName (metric_desc m), labelValues m)) xs =
      map (\<lambda>v. (fst v, fst (snd v))) (map sample_view xs)" for xs
    by (simp add: sample_view_def)
  have u: "devstatCollector_Update c k t =
      (Returns None,
       \<lparr>ch = ch t @ device_samples c k 0 @ device_samples c k 1 @ device_samples c k 2,
        stats_queries = stats_queries t @ [0, 1, 2]\<rparr>)"
  proof -
    have r: "[0..<3] = [0, 1, 2 :: nat]"
      by (simp add: numeral_3_eq_3 numeral_2_eq_2)
    show ?thesis
      using devstat_Update_run [OF nn assms(2,3), of t] by (simp add: len r)
  qed
  show ?thesis
    using u l [of 0] l [of 1] l [of 2] by (simp add: kinds v l)
qed

theorem three_devices_thirty_samples_witness:
  "get_ndevs (dev_kernel False (Some three_devices)) = 3 \<and>
   fst (devstatCollector_Update (NewDevstatCollector ''node'')
          (dev_kernel False (Some three_devices)) empty_trace) = Returns None \<and>
   stats_queries (snd (devstatCollector_Update (NewDevstatCollector ''node'')
          (dev_kernel False (Some three_devices)) empty_trace)) = [0, 1, 2] \<and>
   length (ch (snd (devstatCollector_Update (NewDevstatCollector ''node'')
          (dev_kernel False (Some three_devices)) empty_trace))) = 30 \<and>
   map labelValues (device_samples (NewDevstatCollector ''node'')
          (dev_kernel False (Some three_devices)) 2) =
     [[''cd0'', ''read''], [''cd0'', ''write''], [''cd0'', ''other''], [''cd0'', ''read''],
      [''cd0'', ''write''], [''cd0'', ''other''], [''cd0'', ''read''], [''cd0'', ''write''],
      [''cd0''], [''cd0'']]"
proof -
  have n: "get_ndevs (dev_kernel False (Some three_devices)) = 3"
    by (simp add: get_ndevs_def dev_kernel_def three_devices_def)
  have d: "devstat_getdevs (dev_kernel False (Some three_devices)) = Some three_devices"
    by (simp add: dev_kernel_def)
  have l: "map labelValues (device_samples (NewDevstatCollector ''node'')
          (dev_kernel False (Some three_devices)) 2) =
     [[''cd0'', ''read''], [''cd0'', ''write''], [''cd0'', ''other''], [''cd0'', ''read''],
      [''cd0'', ''write''], [''cd0'', ''other''], [''cd0'', ''read''], [''cd0'', ''write''],
      [''cd0''], [''cd0'']]"
    by (simp add: dev_eval_defs)
  show ?thesis
    using three_devices_thirty_samples [where t = empty_trace, OF n d refl] n l
    by (simp add: empty_trace_def)
qed

text \<open>
  C3 as stated fails: with three devices the cycle sends 30 samples, not 27, and 10 for
  a device, not 9.
\<close>

theorem twenty_seven_samples_counterexample:
  "get_ndevs (dev_kernel False (Some three_devices)) = 3 \<and>
   length (ch (snd (devstatCollector_Update (NewDevstatCollector ''node'')
          (dev_kernel False (Some three_devices)) empty_trace))) = 30 \<and>
   length (ch (snd (devstatCollector_Update (NewDevstatCollector ''node'')
          (dev_kernel False (Some three_devices)) empty_trace))) \<noteq> 27 \<and>
   length (device_samples (NewDevstatCollector ''node'')
          (dev_kernel False (Some three_devices)) 0) \<noteq> 9"
proof -
  have n: "get_ndevs (dev_kernel False (Some three_devices)) = 3"
    by (simp add: get_ndevs_def dev_kernel_def three_devices_def)
  have c: "\<not> calloc_null (dev_kernel False (Some three_devices))"
    and d: "devstat_getdevs (dev_kernel False (Some three_devices)) = Some three_devices"
    by (simp_all add: dev_kernel_def)
  have r: "[0..<3] = [0, 1, 2 :: nat]"
    by (simp add: numeral_3_eq_3 numeral_2_eq_2)
  have l: "length (device_samples (NewDevstatCollector ''node'')
          (dev_kernel False (Some three_devices)) j) = 10" if "j < 3" for j
    using arg_cong [OF device_samples_view [where ns = "''node''" and j = j, OF c d _ refl], of length] that
    by (simp add: three_devices_def)
  show ?thesis
    using devstat_Update_run [where ns = "''node''" and t = empty_trace, OF c d refl] n l [of 0] l [of "Suc 0"] l [of "Suc (Suc 0)"]
    by (simp add: r three_devices_def [THEN arg_cong, of length] empty_trace_def)
qed

section \<open>The counters that are not sent\<close>

text \<open>
  C8.  On every cycle whose enumeration succeeds, \<^verbatim>\<open>devstatCollector.Update\<close> returns nil
  after one turn per device, and for every device: \<^verbatim>\<open>_get_stats\<close> stores the "free"
  byte, transfer and duration counters in the record it returns, and the samples sent
  are exactly the ten listed, none of which carries a "free" counter; "other" is sent
  for the transfers and the duration, and the bytes metric has the type labels "read"
  and "write" only.
\<close>

theorem free_counters_not_emitted:
  assumes "\<not> calloc_null k" and "devstat_getdevs k = Some ds" and "c = NewDevstatCollector ns"
  shows "devstatCollector_Update c k t =
      (Returns None,
       \<lparr>ch = ch t @ concat (map (device_samples c k) [0..<length ds]),
        stats_queries = stats_queries t @ map int [0..<length ds]\<rparr>) \<and>
     (\<forall>j<length ds. \<exists>stats.
        get_stats k (int j) = Returns stats \<and>
        device stats = device_name (ds ! j) \<and> unit stats = unit_number (ds ! j) \<and>
        bytes_free (bytes stats) = TOTAL_BYTES_FREE (ds ! j) \<and>
        transfers_free (transfers stats) = TOTAL_TRANSFERS_FREE (ds ! j) \<and>
        duration_free (duration stats) = F64_of_ld (TOTAL_DURATION_FREE (ds ! j)) \<and>
        map sample_view (device_samples c k j) =
          [(BuildFQName ns ''devstat'' ''bytes_total'',
              [device_name (ds ! j) @ Itoa (unit_number (ds ! j)), ''read''],
              F64_of_int (uint (TOTAL_BYTES_READ (ds ! j)))),
           (BuildFQName ns ''devstat'' ''bytes_total'',
              [device_name (ds ! j) @ Itoa (unit_number (ds ! j)), ''write''],
              F64_of_int (uint (TOTAL_BYTES_WRITE (ds ! j)))),
           (BuildFQName ns ''devstat'' ''transfers_total'',
              [device_name (ds ! j) @ Itoa (unit_number (ds ! j)), ''other''],
              F64_of_int (uint (TOTAL_TRANSFERS_OTHER (ds ! j)))),
           (BuildFQName ns ''devstat'' ''transfers_total'',
              [device_name (ds ! j) @ Itoa (unit_number (ds ! j)), ''read''],
              F64_of_int (uint (TOTAL_TRANSFERS_READ (ds ! j)))),
           (BuildFQName ns ''devstat'' ''transfers_total'',
              [device_name (ds ! j) @ Itoa (unit_number (ds ! j)), ''write''],
              F64_of_int (uint (TOTAL_TRANSFERS_WRITE (ds ! j)))),
           (BuildFQName ns ''devstat'' ''duration_seconds_total'',
              [device_name (ds ! j) @ Itoa (unit_number (ds ! j)), ''other''],
              F64_of_ld (TOTAL_DURATION_OTHER (ds ! j))),
           (BuildFQName ns ''devstat'' ''duration_seconds_total'',
              [device_name (ds ! j) @ Itoa (unit_number (ds ! j)), ''read''],
              F64_of_ld (TOTAL_DURATION_READ (ds ! j))),
           (BuildFQName ns ''devstat'' ''duration_seconds_total'',
              [device_name (ds ! j) @ Itoa (unit_number (ds ! j)), ''write''],
              F64_of_ld (TOTAL_DURATION_WRITE (ds ! j))),
           (BuildFQName ns ''devstat'' ''busy_time_seconds_total'',
              [device_name (ds ! j) @ Itoa (unit_number (ds ! j))],
              F64_of_int (long_of_ld (TOTAL_BUSY_TIME (ds ! j)))),
           (BuildFQName ns ''devstat'' ''blocks_transferred_total'',
              [device_name (ds ! j) @ Itoa (unit_number (ds ! j))],
              F64_of_int (uint (TOTAL_BLOCKS (ds ! j))))])"
proof (intro conjI allI impI)
  show "devstatCollector_Update c k t =
      (Returns None,
       \<lparr>ch = ch t @ concat (map (device_samples c k) [0..<length ds]),
        stats_queries = stats_queries t @ map int [0..<length ds]\<rparr>)"
    by (rule devstat_Update_run [OF assms])
next
  fix j assume j: "j < length ds"
  obtain stats where st: "get_stats k (int j) = Returns stats"
    using get_stats_Returns [OF assms(1,2) j] by blast
  have f: "device stats = device_name (ds ! j)" "unit stats = unit_number (ds ! j)"
    "bytes_free (bytes stats) = TOTAL_BYTES_FREE (ds ! j)"
    "transfers_free (transfers stats) = TOTAL_TRANSFERS_FREE (ds ! j)"
    "duration_free (duration stats) = F64_of_ld (TOTAL_DURATION_FREE (ds ! j))"
    using st assms(1,2) j by (auto simp: get_stats_def Let_def)
  show "\<exists>stats. get_stats k (int j) = Returns stats \<and>
        device stats = device_name (ds ! j) \<and> unit stats = unit_number (ds ! j) \<and>
        bytes_free (bytes stats) = TOTAL_BYTES_FREE (ds ! j) \<and>
        transfers_free (transfers stats) = TOTAL_TRANSFERS_FREE (ds ! j) \<and>
        duration_free (duration stats) = F64_of_ld (TOTAL_DURATION_FREE (ds ! j)) \<and>
        map sample_view (device_samples c k j) =
          [(BuildFQName ns ''devstat'' ''bytes_total'',
              [device_name (ds ! j) @ Itoa (unit_number (ds ! j)), ''read''],
              F64_of_int (uint (TOTAL_BYTES_READ (ds ! j)))),
           (BuildFQName ns ''devstat'' ''bytes_total'',
              [device_name (ds ! j) @ Itoa (unit_number (ds ! j)), ''write''],
              F64_of_int (uint (TOTAL_BYTES_WRITE (ds ! j)))),
           (BuildFQName ns ''devstat'' ''transfers_total'',
              [device_name (ds ! j) @ Itoa (unit_number (ds ! j)), ''other''],
              F64_of_int (uint (TOTAL_TRANSFERS_OTHER (ds ! j)))),
           (BuildFQName ns ''devstat'' ''transfers_total'',
              [device_name (ds ! j) @ Itoa (unit_number (ds ! j)), ''read''],
              F64_of_int (uint (TOTAL_TRANSFERS_READ (ds ! j)))),
           (BuildFQName ns ''devstat'' ''transfers_total'',
              [device_name (ds ! j) @ Itoa (unit_number (ds ! j)), ''write''],
              F64_of_int (uint (TOTAL_TRANSFERS_WRITE (ds ! j)))),
           (BuildFQName ns ''devstat'' ''duration_seconds_total'',
              [device_name (ds ! j) @ Itoa (unit_number (ds ! j)), ''other''],
              F64_of_ld (TOTAL_DURATION_OTHER (ds ! j))),
           (BuildFQName ns ''devstat'' ''duration_seconds_total'',
              [device_name (ds ! j) @ Itoa (unit_number (ds ! j)), ''read''],
              F64_of_ld (TOTAL_DURATION_READ (ds ! j))),
           (BuildFQName ns ''devstat'' ''duration_seconds_total'',
              [device_name (ds ! j) @ Itoa (unit_number (ds ! j)), ''write''],
              F64_of_ld (TOTAL_DURATION_WRITE (ds ! j))),
           (BuildFQName ns ''devstat'' ''busy_time_seconds_total'',
              [device_name (ds ! j) @ Itoa (unit_number (ds ! j))],
              F64_of_int (long_of_ld (TOTAL_BUSY_TIME (ds ! j)))),
           (BuildFQName ns ''devstat'' ''blocks_transferred_total'',
              [device_name (ds ! j) @ Itoa (unit_number (ds ! j))],
              F64_of_int (uint (TOTAL_BLOCKS (ds ! j))))]"
    unfolding assms(3)
    by (rule exI [of _ stats])
       (simp add: st f device_samples_view [OF assms(1,2) j refl])
qed

theorem free_counters_not_emitted_witness:
  "\<exists>stats. get_stats (dev_kernel False (Some [example_device ''ada'' 0])) 0 = Returns stats \<and>
     bytes_free (bytes stats) = 512 \<and> transfers_free (transfers stats) = 1 \<and>
     duration_free (duration stats) = F64_of_ld (1 / 8) \<and>
     map sample_view (device_samples (NewDevstatCollector ''node'')
         (dev_kernel False (Some [example_device ''ada'' 0])) 0) =
       [(''node_devstat_bytes_total'', [''ada0'', ''read''], F64_of_int 4096),
        (''node_devstat_bytes_total'', [''ada0'', ''write''], F64_of_int 8192),
        (''node_devstat_transfers_total'', [''ada0'', ''other''], F64_of_int 3),
        (''node_devstat_transfers_total'', [''ada0'', ''read''], F64_of_int 8),
        (''node_devstat_transfers_total'', [''ada0'', ''write''], F64_of_int 16),
        (''node_devstat_duration_seconds_total'', [''ada0'', ''other''], F64_of_ld (1 / 4)),
        (''node_devstat_duration_seconds_total'', [''ada0'', ''read''], F64_of_ld (3 / 2)),
        (''node_devstat_duration_seconds_total'', [''ada0'', ''write''], F64_of_ld (5 / 2)),
        (''node_devstat_busy_time_seconds_total'', [''ada0''], F64_of_int 3),
        (''node_devstat_blocks_transferred_total'', [''ada0''], F64_of_int 24)]"
proof -
  let ?k = "dev_kernel False (Some [example_device ''ada'' 0])"
  have c: "\<not> calloc_null ?k"
    and d: "devstat_getdevs ?k = Some [example_device ''ada'' 0]"
    by (simp_all add: dev_kernel_def)
  have "0 < length [example_device ''ada'' 0]" by simp
  from free_counters_not_emitted [where ns = "''node''" and t = empty_trace, OF c d refl,
      THEN conjunct2, rule_format, OF this]
  show ?thesis
    apply (elim exE conjE)
    subgoal for stats
      apply (rule exI [of _ stats])
      apply (simp add: example_device_def BuildFQName_def Itoa_def digits.simps long_of_ld_example)
      done
    done
qed

section \<open>Determinism\<close>




end
